theory Spec2Isabelle
  imports Main "HOL-Library.Word"
begin

section \<open>Bytes, errors and the file system\<close>

text \<open>
  The module \<^verbatim>\<open>sbpy/data/utils/dastcom5.py\<close> reads the DASTCOM5 archive: two
  fixed-layout binary files and a text index, all below \<^verbatim>\<open>~/.sbpy/dastcom5/dat\<close>.
  An Isabelle \<^typ>\<open>char\<close> is an 8-bit value, so a byte string and an ASCII text are both
  a \<^typ>\<open>string\<close>. Every exception the module can raise is a value of \<open>error\<close>, and a
  function that may raise returns \<open>error + 'a\<close>.
\<close>

type_synonym bytes = string

datatype error =
    FileNotFoundError
  | IsADirectoryError
  | FileExistsError
  | OSError_EINVAL
  | IndexError
  | KeyError
  | ValueError
  | TypeError
  | ReError
  | NotADirectoryError
  | URLError
  | BadZipFile

definition and_then :: "error + 'a \<Rightarrow> ('a \<Rightarrow> error + 'b) \<Rightarrow> error + 'b" where
  "and_then r f = (case r of Inl e \<Rightarrow> Inl e | Inr v \<Rightarrow> f v)"

text \<open>
  Where a function calls into a library that this development models on a part only,
  its result is an \<open>outcome\<close>: what it returns, the exception it raises, or \<open>Unmodelled\<close>
  where the model stops and says nothing.
\<close>

datatype 'a outcome = Returns 'a | Raises error | Unmodelled

type_synonym path = "string list"

datatype node = Dir | File bytes

type_synonym fs = "path \<Rightarrow> node option"

definition SBPY_LOCAL_PATH :: path where
  "SBPY_LOCAL_PATH = [''~'', ''.sbpy'']"

definition DBS_LOCAL_PATH :: path where
  "DBS_LOCAL_PATH = SBPY_LOCAL_PATH @ [''dastcom5'', ''dat'']"

definition AST_DB_PATH :: path where
  "AST_DB_PATH = DBS_LOCAL_PATH @ [''dast5_le.dat'']"

definition COM_DB_PATH :: path where
  "COM_DB_PATH = DBS_LOCAL_PATH @ [''dcom5_le.dat'']"

text \<open>\<^verbatim>\<open>open(path, "rb")\<close>: the content of a regular file, or the exception.\<close>

definition open_rb :: "fs \<Rightarrow> path \<Rightarrow> error + bytes" where
  "open_rb files p =
     (case files p of
        None \<Rightarrow> Inl FileNotFoundError
      | Some Dir \<Rightarrow> Inl IsADirectoryError
      | Some (File content) \<Rightarrow> Inr content)"

text \<open>
  \<^verbatim>\<open>f.seek(offset, os.SEEK_SET)\<close> on a file opened for binary reading. An offset that
  does not fit the 64-bit file offset is refused by Python (ValueError). The operating
  system refuses a negative offset and an offset beyond the largest file size of the
  file system that holds the file, both with EINVAL; any other offset is accepted, also
  past the end of the file. The largest file size is a property of the file system (16
  TiB less one block on ext4 with 4 KiB blocks, \<open>2 ^ 63 - 1\<close> on others) and is the
  parameter \<open>maxbytes\<close> of every function that seeks.
\<close>

definition seek :: "int \<Rightarrow> int \<Rightarrow> error + nat" where
  "seek maxbytes offset =
     (if offset < - (2 ^ 63) \<or> 2 ^ 63 \<le> offset then Inl ValueError
      else if offset < 0 \<or> maxbytes < offset then Inl OSError_EINVAL
      else Inr (nat offset))"

section \<open>Record schemas\<close>

text \<open>
  A numpy structured dtype is the ordered list of its fields. The dtypes of the module
  are packed (no alignment padding), so the item size is the sum of the field widths.
\<close>

datatype ftype = Int8 | Int16 | Int32 | Float32 | Float64 | S nat

fun width :: "ftype \<Rightarrow> nat" where
  "width Int8 = 1"
| "width Int16 = 2"
| "width Int32 = 4"
| "width Float32 = 4"
| "width Float64 = 8"
| "width (S n) = n"

type_synonym dtype = "(string \<times> ftype) list"

definition itemsize :: "dtype \<Rightarrow> nat" where
  "itemsize d = sum_list (map (\<lambda>(name, t). width t) d)"

definition names :: "dtype \<Rightarrow> string list" where
  "names d = map fst d"

definition AST_DTYPE :: dtype where
  "AST_DTYPE = [
    (''NO'', Int32), (''NOBS'', Int32), (''OBSFRST'', Int32), (''OBSLAST'', Int32),
    (''EPOCH'', Float64), (''CALEPO'', Float64), (''MA'', Float64), (''W'', Float64),
    (''OM'', Float64), (''IN'', Float64), (''EC'', Float64), (''A'', Float64),
    (''QR'', Float64), (''TP'', Float64), (''TPCAL'', Float64), (''TPFRAC'', Float64),
    (''SOLDAT'', Float64), (''SRC1'', Float64), (''SRC2'', Float64), (''SRC3'', Float64),
    (''SRC4'', Float64), (''SRC5'', Float64), (''SRC6'', Float64), (''SRC7'', Float64),
    (''SRC8'', Float64), (''SRC9'', Float64), (''SRC10'', Float64), (''SRC11'', Float64),
    (''SRC12'', Float64), (''SRC13'', Float64), (''SRC14'', Float64), (''SRC15'', Float64),
    (''SRC16'', Float64), (''SRC17'', Float64), (''SRC18'', Float64), (''SRC19'', Float64),
    (''SRC20'', Float64), (''SRC21'', Float64), (''SRC22'', Float64), (''SRC23'', Float64),
    (''SRC24'', Float64), (''SRC25'', Float64), (''SRC26'', Float64), (''SRC27'', Float64),
    (''SRC28'', Float64), (''SRC29'', Float64), (''SRC30'', Float64), (''SRC31'', Float64),
    (''SRC32'', Float64), (''SRC33'', Float64), (''SRC34'', Float64), (''SRC35'', Float64),
    (''SRC36'', Float64), (''SRC37'', Float64), (''SRC38'', Float64), (''SRC39'', Float64),
    (''SRC40'', Float64), (''SRC41'', Float64), (''SRC42'', Float64), (''SRC43'', Float64),
    (''SRC44'', Float64), (''SRC45'', Float64), (''PRELTV'', Int8), (''SPHMX3'', Int8),
    (''SPHMX5'', Int8), (''JGSEP'', Int8), (''TWOBOD'', Int8), (''NSATS'', Int8),
    (''UPARM'', Int8), (''LSRC'', Int8), (''NDEL'', Int16), (''NDOP'', Int16),
    (''H'', Float32), (''G'', Float32), (''A1'', Float32), (''A2'', Float32),
    (''A3'', Float32), (''R0'', Float32), (''ALN'', Float32), (''NM'', Float32),
    (''NN'', Float32), (''NK'', Float32), (''LGK'', Float32), (''RHO'', Float32),
    (''AMRAT'', Float32), (''ALF'', Float32), (''DEL'', Float32), (''SPHLM3'', Float32),
    (''SPHLM5'', Float32), (''RP'', Float32), (''GM'', Float32), (''RAD'', Float32),
    (''EXTNT1'', Float32), (''EXTNT2'', Float32), (''EXTNT3'', Float32), (''MOID'', Float32),
    (''ALBEDO'', Float32), (''BVCI'', Float32), (''UBCI'', Float32), (''IRCI'', Float32),
    (''RMSW'', Float32), (''RMSU'', Float32), (''RMSN'', Float32), (''RMSNT'', Float32),
    (''RMSH'', Float32), (''EQUNOX'', S 4), (''PENAM'', S 6), (''SBNAM'', S 12),
    (''SPTYPT'', S 5), (''SPTYPS'', S 5), (''DARC'', S 9), (''COMNT1'', S 41),
    (''COMNT2'', S 80), (''DESIG'', S 13), (''ASTEST'', S 8), (''IREF'', S 10),
    (''ASTNAM'', S 18)]"

definition COM_DTYPE :: dtype where
  "COM_DTYPE = [
    (''NO'', Int32), (''NOBS'', Int32), (''OBSFRST'', Int32), (''OBSLAST'', Int32),
    (''EPOCH'', Float64), (''CALEPO'', Float64), (''MA'', Float64), (''W'', Float64),
    (''OM'', Float64), (''IN'', Float64), (''EC'', Float64), (''A'', Float64),
    (''QR'', Float64), (''TP'', Float64), (''TPCAL'', Float64), (''TPFRAC'', Float64),
    (''SOLDAT'', Float64), (''SRC1'', Float64), (''SRC2'', Float64), (''SRC3'', Float64),
    (''SRC4'', Float64), (''SRC5'', Float64), (''SRC6'', Float64), (''SRC7'', Float64),
    (''SRC8'', Float64), (''SRC9'', Float64), (''SRC10'', Float64), (''SRC11'', Float64),
    (''SRC12'', Float64), (''SRC13'', Float64), (''SRC14'', Float64), (''SRC15'', Float64),
    (''SRC16'', Float64), (''SRC17'', Float64), (''SRC18'', Float64), (''SRC19'', Float64),
    (''SRC20'', Float64), (''SRC21'', Float64), (''SRC22'', Float64), (''SRC23'', Float64),
    (''SRC24'', Float64), (''SRC25'', Float64), (''SRC26'', Float64), (''SRC27'', Float64),
    (''SRC28'', Float64), (''SRC29'', Float64), (''SRC30'', Float64), (''SRC31'', Float64),
    (''SRC32'', Float64), (''SRC33'', Float64), (''SRC34'', Float64), (''SRC35'', Float64),
    (''SRC36'', Float64), (''SRC37'', Float64), (''SRC38'', Float64), (''SRC39'', Float64),
    (''SRC40'', Float64), (''SRC41'', Float64), (''SRC42'', Float64), (''SRC43'', Float64),
    (''SRC44'', Float64), (''SRC45'', Float64), (''SRC46'', Float64), (''SRC47'', Float64),
    (''SRC48'', Float64), (''SRC49'', Float64), (''SRC50'', Float64), (''SRC51'', Float64),
    (''SRC52'', Float64), (''SRC53'', Float64), (''SRC54'', Float64), (''SRC55'', Float64),
    (''PRELTV'', Int8), (''SPHMX3'', Int8), (''SPHMX5'', Int8), (''JGSEP'', Int8),
    (''TWOBOD'', Int8), (''NSATS'', Int8), (''UPARM'', Int8), (''LSRC'', Int8),
    (''IPYR'', Int16), (''NDEL'', Int16), (''NDOP'', Int16), (''NOBSMT'', Int16),
    (''NOBSMN'', Int16), (''H'', Float32), (''G'', Float32), (''M1 (MT)'', Float32),
    (''M2 (MN)'', Float32), (''K1 (MTSMT)'', Float32), (''K2 (MNSMT)'', Float32),
    (''PHCOF (MNP)'', Float32), (''A1'', Float32), (''A2'', Float32), (''A3'', Float32),
    (''DT'', Float32), (''R0'', Float32), (''ALN'', Float32), (''NM'', Float32),
    (''NN'', Float32), (''NK'', Float32), (''S0'', Float32), (''TCL'', Float32),
    (''RHO'', Float32), (''AMRAT'', Float32), (''AJ1'', Float32), (''AJ2'', Float32),
    (''ET1'', Float32), (''ET2'', Float32), (''DTH'', Float32), (''ALF'', Float32),
    (''DEL'', Float32), (''SPHLM3'', Float32), (''SPHLM5'', Float32), (''RP'', Float32),
    (''GM'', Float32), (''RAD'', Float32), (''EXTNT1'', Float32), (''EXTNT2'', Float32),
    (''EXTNT3'', Float32), (''MOID'', Float32), (''ALBEDO'', Float32), (''RMSW'', Float32),
    (''RMSU'', Float32), (''RMSN'', Float32), (''RMSNT'', Float32), (''RMSMT'', Float32),
    (''RMSMN'', Float32), (''EQUNOX'', S 4), (''PENAM'', S 6), (''SBNAM'', S 12),
    (''DARC'', S 9), (''COMNT3'', S 49), (''COMNT2'', S 80), (''DESIG'', S 13),
    (''COMEST'', S 14), (''IREF'', S 10), (''COMNAM'', S 29)]"

text \<open>The header dtypes that \<^verbatim>\<open>read_headers\<close> declares locally.\<close>

definition ast_dtype :: dtype where
  "ast_dtype = [
    (''IBIAS1'', Int32), (''BEGINP1'', S 8), (''BEGINP2'', S 8), (''BEGINP3'', S 8),
    (''ENDPT1'', S 8), (''ENDPT2'', S 8), (''ENDPT3'', S 8), (''CALDATE'', S 19),
    (''JDDATE'', Float64), (''FTYP'', S 1), (''BYTE2A'', Int16), (''IBIAS0'', Int32)]"

definition com_dtype :: dtype where
  "com_dtype = [
    (''IBIAS2'', Int32), (''BEGINP1'', S 8), (''BEGINP2'', S 8), (''BEGINP3'', S 8),
    (''ENDPT1'', S 8), (''ENDPT2'', S 8), (''ENDPT3'', S 8), (''CALDATE'', S 19),
    (''JDDATE'', Float64), (''FTYP'', S 1), (''BYTE2C'', Int16)]"

section \<open>Decoding\<close>

text \<open>
  The files are little-endian (\<^verbatim>\<open>dast5_le.dat\<close>) and are read with the native numpy
  types of a little-endian machine. An integer field is the Python int that
  \<^verbatim>\<open>.item()\<close> gives; a float field is kept as its IEEE 754 bit pattern (no
  floating-point arithmetic is modelled); an \<^verbatim>\<open>|Sn\<close> field is the byte string numpy
  hands out, that is, without its trailing NUL bytes.
\<close>

datatype fvalue =
    VInt int
  | VFloat32 "32 word"
  | VFloat64 "64 word"
  | VBytes bytes

type_synonym npy_record = "(string \<times> fvalue) list"

fun le_nat :: "bytes \<Rightarrow> nat" where
  "le_nat [] = 0"
| "le_nat (b # bs) = of_char b + 256 * le_nat bs"

definition le_int :: "bytes \<Rightarrow> int" where
  "le_int bs =
     (let u = int (le_nat bs); m = 2 ^ (8 * length bs)
      in if m \<le> 2 * u then u - m else u)"

definition rstrip_nul :: "bytes \<Rightarrow> bytes" where
  "rstrip_nul bs = rev (dropWhile (\<lambda>c. c = CHR 0x00) (rev bs))"

fun decode_field :: "ftype \<Rightarrow> bytes \<Rightarrow> fvalue" where
  "decode_field Int8 bs = VInt (le_int bs)"
| "decode_field Int16 bs = VInt (le_int bs)"
| "decode_field Int32 bs = VInt (le_int bs)"
| "decode_field Float32 bs = VFloat32 (of_nat (le_nat bs))"
| "decode_field Float64 bs = VFloat64 (of_nat (le_nat bs))"
| "decode_field (S n) bs = VBytes (rstrip_nul bs)"

fun decode_record :: "dtype \<Rightarrow> bytes \<Rightarrow> npy_record" where
  "decode_record [] bs = []"
| "decode_record ((name, t) # d) bs =
     (name, decode_field t (take (width t) bs)) # decode_record d (drop (width t) bs)"

primrec decode_items :: "dtype \<Rightarrow> nat \<Rightarrow> bytes \<Rightarrow> npy_record list" where
  "decode_items d 0 bs = []"
| "decode_items d (Suc n) bs =
     decode_record d (take (itemsize d) bs) # decode_items d n (drop (itemsize d) bs)"

text \<open>C integer division, which truncates towards zero.\<close>

definition c_div :: "int \<Rightarrow> int \<Rightarrow> int" where
  "c_div a b = (if (a < 0) = (b < 0) then \<bar>a\<bar> div \<bar>b\<bar> else - (\<bar>a\<bar> div \<bar>b\<bar>))"

text \<open>
  \<^verbatim>\<open>np.fromfile(f, dtype=d, count=count)\<close> with the file at position \<open>pos\<close>.
  With \<open>count = -1\<close> numpy asks for (bytes left) / (item size) items, in C arithmetic;
  a position a whole item or more past the end makes that number negative, and the
  array cannot be created (ValueError). Otherwise \<^verbatim>\<open>fread\<close> delivers the whole items
  that are there, at most the number asked for; a short read is no error: the array is
  just shorter.
\<close>

definition fromfile :: "bytes \<Rightarrow> nat \<Rightarrow> dtype \<Rightarrow> int \<Rightarrow> error + npy_record list" where
  "fromfile content pos d count =
     (let avail = int (length content) - int pos;
          num = (if count < 0 then c_div avail (int (itemsize d)) else count)
      in if num < 0 then Inl ValueError
         else Inr (decode_items d (min (nat num) (nat avail div itemsize d)) (drop pos content)))"

section \<open>Python's \<^verbatim>\<open>int\<close> on a byte string\<close>

text \<open>
  \<^verbatim>\<open>int(b)\<close> in base 10: ASCII white space is stripped on both sides, one sign may
  follow, then decimal digits, where a single underscore may stand between two digits.
  Anything else is a ValueError.
\<close>

definition is_space :: "char \<Rightarrow> bool" where
  "is_space c = (c \<in> set [CHR '' '', CHR 0x09, CHR 0x0A, CHR 0x0B, CHR 0x0C, CHR 0x0D])"

definition is_digit :: "char \<Rightarrow> bool" where
  "is_digit c = (48 \<le> (of_char c :: nat) \<and> (of_char c :: nat) \<le> 57)"

definition strip :: "string \<Rightarrow> string" where
  "strip s = rev (dropWhile is_space (rev (dropWhile is_space s)))"

fun parse_digits :: "bool \<Rightarrow> nat \<Rightarrow> string \<Rightarrow> nat option" where
  "parse_digits after_digit acc [] = (if after_digit then Some acc else None)"
| "parse_digits after_digit acc (c # cs) =
     (if is_digit c then parse_digits True (10 * acc + (of_char c - 48)) cs
      else if c = CHR ''_'' \<and> after_digit then parse_digits False acc cs
      else None)"

definition py_int :: "bytes \<Rightarrow> error + int" where
  "py_int b =
     (case strip b of
        [] \<Rightarrow> Inl ValueError
      | c # cs \<Rightarrow>
          (case (if c = CHR ''-'' \<or> c = CHR ''+'' then parse_digits False 0 cs
                 else parse_digits False 0 (c # cs)) of
             None \<Rightarrow> Inl ValueError
           | Some n \<Rightarrow> Inr (if c = CHR ''-'' then - int n else int n)))"

section \<open>Headers and the record resolver\<close>

text \<open>
  \<^verbatim>\<open>arr[name][0].item()\<close>: the named field of the first element. The element is
  missing (IndexError) when the array is empty. Every name the module asks for is a
  field of the array's dtype, so the KeyError branch is never taken on an array that
  \<open>fromfile\<close> built.
\<close>

definition item0 :: "npy_record list \<Rightarrow> string \<Rightarrow> error + fvalue" where
  "item0 arr name =
     (case arr of
        [] \<Rightarrow> Inl IndexError
      | r # rest \<Rightarrow> (case map_of r name of None \<Rightarrow> Inl KeyError | Some v \<Rightarrow> Inr v))"

text \<open>
  \<^verbatim>\<open>int(arr[name][0].item())\<close> for the boundary markers, which are \<^verbatim>\<open>|S8\<close> fields,
  and \<^verbatim>\<open>arr[name][0].item()\<close> used as a number for the biases, which are
  \<^verbatim>\<open>int32\<close> fields. The other kinds of value do not occur at these places.
\<close>

definition int_item0 :: "npy_record list \<Rightarrow> string \<Rightarrow> error + int" where
  "int_item0 arr name =
     and_then (item0 arr name)
       (\<lambda>v. case v of VBytes b \<Rightarrow> py_int b | VInt i \<Rightarrow> Inr i | _ \<Rightarrow> Inl TypeError)"

definition num_item0 :: "npy_record list \<Rightarrow> string \<Rightarrow> error + int" where
  "num_item0 arr name =
     and_then (item0 arr name) (\<lambda>v. case v of VInt i \<Rightarrow> Inr i | _ \<Rightarrow> Inl TypeError)"

definition read_headers :: "fs \<Rightarrow> error + npy_record list \<times> npy_record list" where
  "read_headers files =
     and_then (open_rb files (DBS_LOCAL_PATH @ [''dast5_le.dat''])) (\<lambda>f.
     and_then (fromfile f 0 ast_dtype 1) (\<lambda>ast_header.
     and_then (open_rb files (DBS_LOCAL_PATH @ [''dcom5_le.dat''])) (\<lambda>g.
     and_then (fromfile g 0 com_dtype 1) (\<lambda>com_header.
     Inr (ast_header, com_header)))))"

text \<open>
  The three lines \<^verbatim>\<open>with open(path, "rb") as f: f.seek(phis_rec, os.SEEK_SET);
  body_data = np.fromfile(f, dtype=d, count=1)\<close>, which both branches of
  \<^verbatim>\<open>read_record\<close> end with.
\<close>

definition seek_and_read ::
  "int \<Rightarrow> fs \<Rightarrow> path \<Rightarrow> dtype \<Rightarrow> int \<Rightarrow> error + npy_record list" where
  "seek_and_read maxbytes files p d phis_rec =
     and_then (open_rb files p) (\<lambda>f.
     and_then (seek maxbytes phis_rec) (\<lambda>pos.
     fromfile f pos d 1))"

definition read_record :: "int \<Rightarrow> fs \<Rightarrow> int \<Rightarrow> error + npy_record list" where
  "read_record maxbytes files record =
     and_then (read_headers files) (\<lambda>(ast_header, com_header).
     and_then (int_item0 ast_header ''ENDPT2'') (\<lambda>endpt2.
       if record \<le> endpt2 then
         and_then (int_item0 ast_header ''ENDPT1'') (\<lambda>endpt1.
         and_then
           (if record \<le> endpt1 then
              and_then (num_item0 ast_header ''IBIAS0'') (\<lambda>ibias0. Inr (835 * (record - ibias0 - 1)))
            else
              and_then (num_item0 ast_header ''IBIAS1'') (\<lambda>ibias1. Inr (835 * (record - ibias1 - 1))))
           (\<lambda>phis_rec. seek_and_read maxbytes files (DBS_LOCAL_PATH @ [''dast5_le.dat'']) AST_DTYPE phis_rec))
       else
         and_then (num_item0 com_header ''IBIAS2'') (\<lambda>ibias2.
         seek_and_read maxbytes files (DBS_LOCAL_PATH @ [''dcom5_le.dat'']) COM_DTYPE
           (976 * (record - ibias2 - 1)))))"

section \<open>Bulk extraction\<close>

definition asteroid_db :: "int \<Rightarrow> fs \<Rightarrow> error + npy_record list" where
  "asteroid_db maxbytes files =
     and_then (open_rb files AST_DB_PATH) (\<lambda>f.
     and_then (seek maxbytes 835) (\<lambda>pos.
     fromfile f pos AST_DTYPE (- 1)))"


section \<open>A small archive\<close>

text \<open>
  A concrete archive, used to run the functions: an asteroid file with its header and
  one record slot after the header slot, and a comet file with its header and one record
  slot. The asteroid header says: numbered records up to 2 (bias -1), unnumbered ones
  up to 11 (bias 6); the comet header has bias 18.
\<close>

definition example_ast_header :: bytes where
  "example_ast_header =
     [CHR 0x06, CHR 0x00, CHR 0x00, CHR 0x00] @
     ''       1'' @ ''      10'' @ ''      20'' @
     ''       2'' @ ''      11'' @ ''      21'' @
     ''2020-01-01 00:00:00'' @
     replicate 8 (CHR 0x00) @
     ''A'' @
     [CHR 0x43, CHR 0x03] @
     [CHR 0xFF, CHR 0xFF, CHR 0xFF, CHR 0xFF]"

definition example_com_header :: bytes where
  "example_com_header =
     [CHR 0x12, CHR 0x00, CHR 0x00, CHR 0x00] @
     ''       1'' @ ''      10'' @ ''      20'' @
     ''       2'' @ ''      11'' @ ''      21'' @
     ''2020-01-01 00:00:00'' @
     replicate 8 (CHR 0x00) @
     ''C'' @
     [CHR 0xD0, CHR 0x03]"

definition example_ast_file :: bytes where
  "example_ast_file =
     example_ast_header @ replicate 749 (CHR 0x00) @ replicate 835 (CHR 0x00)"

definition example_com_file :: bytes where
  "example_com_file =
     example_com_header @ replicate 894 (CHR 0x00) @ replicate 976 (CHR 0x00)"

definition example_archive :: fs where
  "example_archive =
     (\<lambda>p. if p = AST_DB_PATH then Some (File example_ast_file)
          else if p = COM_DB_PATH then Some (File example_com_file)
          else None)"

text \<open>The largest file size of an ext4 file system with blocks of 4 KiB.\<close>

definition example_maxbytes :: int where
  "example_maxbytes = 2 ^ 44 - 4096"



section \<open>Writing a record back\<close>

text \<open>
  The module only reads. Claim C7 speaks of re-encoding the decoded field values with
  the byte layout of the same schema; \<open>encode_record\<close> is that layout written out, for
  the comparison with \<open>decode_record\<close>: each value in the width and byte order of its
  field, the fields one after the other, a byte string padded with NUL bytes to the
  width of its field.
\<close>

primrec le_bytes :: "nat \<Rightarrow> nat \<Rightarrow> bytes" where
  "le_bytes 0 x = []"
| "le_bytes (Suc n) x = char_of (x mod 256) # le_bytes n (x div 256)"

fun encode_field :: "ftype \<Rightarrow> fvalue \<Rightarrow> bytes" where
  "encode_field Int8 (VInt i) = le_bytes 1 (nat (i mod 2 ^ 8))"
| "encode_field Int16 (VInt i) = le_bytes 2 (nat (i mod 2 ^ 16))"
| "encode_field Int32 (VInt i) = le_bytes 4 (nat (i mod 2 ^ 32))"
| "encode_field Float32 (VFloat32 w) = le_bytes 4 (unat w)"
| "encode_field Float64 (VFloat64 w) = le_bytes 8 (unat w)"
| "encode_field (S n) (VBytes b) = b @ replicate (n - length b) (CHR 0x00)"
| "encode_field t v = []"

fun encode_record :: "dtype \<Rightarrow> npy_record \<Rightarrow> bytes" where
  "encode_record ((name, t) # d) ((name', v) # r) = encode_field t v @ encode_record d r"
| "encode_record d r = []"

section \<open>Fetching the archive\<close>

text \<open>
  \<^verbatim>\<open>download_dastcom5\<close> changes the file system. The state it runs in is the file
  system together with the list of the changes made to it so far, so that a run that
  changes nothing can be told from one that undoes what it did. Two things outside the
  program are parameters: \<open>remote\<close>, the archive the server delivers (\<open>None\<close> when the
  transfer fails), and \<open>unzip\<close>, which reads a byte string as a zip archive (\<open>None\<close>
  when it is none) and gives its members in the order of the archive, each a directory
  or a file with its path relative to the target directory, as \<^verbatim>\<open>zipfile\<close> cleans
  it (never empty). Console output, which includes the progress lines of
  \<^verbatim>\<open>show_download_progress\<close>, is not part of the model.
\<close>

datatype fs_op =
    Rmtree path
  | Makedirs path
  | Mkdir path
  | WriteFile path
  | Remove path

record world =
  disk :: fs
  changes :: "fs_op list"

type_synonym command = "world \<Rightarrow> error option \<times> world"

text \<open>One statement after the other: an exception ends the run in the state reached.\<close>

definition seq :: "command \<Rightarrow> command \<Rightarrow> command" where
  "seq c1 c2 w = (case c1 w of (Some e, w') \<Rightarrow> (Some e, w') | (None, w') \<Rightarrow> c2 w')"

definition skip :: command where
  "skip w = (None, w)"

definition raise :: "error \<Rightarrow> command" where
  "raise e w = (Some e, w)"

definition isdir :: "fs \<Rightarrow> path \<Rightarrow> bool" where
  "isdir fsys p = (fsys p = Some Dir)"

definition below :: "path \<Rightarrow> path \<Rightarrow> bool" where
  "below p q = (take (length p) q = p)"

text \<open>\<^verbatim>\<open>shutil.rmtree(p)\<close>, called on a directory: it and all below it are gone.\<close>

definition rmtree :: "path \<Rightarrow> command" where
  "rmtree p w =
     (None, w\<lparr>disk := (\<lambda>q. if below p q then None else disk w q),
              changes := changes w @ [Rmtree p]\<rparr>)"

text \<open>
  \<^verbatim>\<open>os.makedirs(p)\<close>: the directory and the missing ones above it are created. It
  fails when \<open>p\<close> exists already, or when something above it is a file.
\<close>

definition makedirs :: "path \<Rightarrow> command" where
  "makedirs p w =
     (if disk w p \<noteq> None then (Some FileExistsError, w)
      else if list_ex (\<lambda>n. \<exists>c. disk w (take n p) = Some (File c)) [1..<length p]
      then (Some NotADirectoryError, w)
      else (None, w\<lparr>disk := (\<lambda>q. if q \<noteq> [] \<and> below q p then Some Dir else disk w q),
                    changes := changes w @ [Makedirs p]\<rparr>))"

text \<open>What stands directly above a path; above the first component, a directory.\<close>

definition above :: "fs \<Rightarrow> path \<Rightarrow> node option" where
  "above fsys p = (if butlast p = [] then Some Dir else fsys (butlast p))"

text \<open>
  \<^verbatim>\<open>open(p, "wb")\<close> followed by the writing of the whole content: the file is
  created or replaced. It fails when the directory above is missing or is a file, and
  when \<open>p\<close> is a directory.
\<close>

definition write_file :: "path \<Rightarrow> bytes \<Rightarrow> command" where
  "write_file p content w =
     (case above (disk w) p of
        None \<Rightarrow> (Some FileNotFoundError, w)
      | Some (File c) \<Rightarrow> (Some NotADirectoryError, w)
      | Some Dir \<Rightarrow>
          if isdir (disk w) p then (Some IsADirectoryError, w)
          else (None, w\<lparr>disk := (disk w)(p \<mapsto> File content),
                        changes := changes w @ [WriteFile p]\<rparr>))"

text \<open>
  \<^verbatim>\<open>urllib.request.urlretrieve(url, p, hook)\<close>: the connection is made first, then the
  target file is opened for writing and filled.
\<close>

definition urlretrieve :: "bytes option \<Rightarrow> path \<Rightarrow> command" where
  "urlretrieve remote p w =
     (case remote of
        None \<Rightarrow> (Some URLError, w)
      | Some content \<Rightarrow> write_file p content w)"

definition is_zipfile :: "(bytes \<Rightarrow> (path \<times> node) list option) \<Rightarrow> fs \<Rightarrow> path \<Rightarrow> bool" where
  "is_zipfile unzip fsys p =
     (case fsys p of Some (File content) \<Rightarrow> unzip content \<noteq> None | _ \<Rightarrow> False)"

text \<open>\<^verbatim>\<open>os.mkdir(p)\<close>: one directory, below a directory that exists.\<close>

definition mkdir :: "path \<Rightarrow> command" where
  "mkdir p w =
     (if disk w p \<noteq> None then (Some FileExistsError, w)
      else case above (disk w) p of
        None \<Rightarrow> (Some FileNotFoundError, w)
      | Some (File c) \<Rightarrow> (Some NotADirectoryError, w)
      | Some Dir \<Rightarrow>
          (None, w\<lparr>disk := (disk w)(p \<mapsto> Dir), changes := changes w @ [Mkdir p]\<rparr>))"

text \<open>
  \<^verbatim>\<open>zipfile\<close> extracts one member to \<open>p\<close> in two steps. When nothing stands where
  the directory above \<open>p\<close> should be, that directory is made with the ones above it.
  Then a directory member is made unless a directory is there already, and a file
  member is written over what is there.
\<close>

definition extract_member :: "path \<Rightarrow> node \<Rightarrow> command" where
  "extract_member p n =
     seq (\<lambda>w. if butlast p \<noteq> [] \<and> disk w (butlast p) = None then makedirs (butlast p) w
               else skip w)
         (case n of
            Dir \<Rightarrow> (\<lambda>w. if \<not> isdir (disk w) p then mkdir p w else skip w)
          | File content \<Rightarrow> write_file p content)"

fun extract_members :: "path \<Rightarrow> (path \<times> node) list \<Rightarrow> command" where
  "extract_members target [] = skip"
| "extract_members target ((rel, n) # members) =
     seq (extract_member (target @ rel) n) (extract_members target members)"

text \<open>
  \<^verbatim>\<open>with zipfile.ZipFile(p) as myzip: myzip.extractall(target)\<close>: the members are
  extracted one after the other; the first failure ends the extraction and leaves what
  was extracted before it.
\<close>

definition extractall :: "(bytes \<Rightarrow> (path \<times> node) list option) \<Rightarrow> path \<Rightarrow> path \<Rightarrow> command" where
  "extractall unzip p target w =
     (case disk w p of
        None \<Rightarrow> (Some FileNotFoundError, w)
      | Some Dir \<Rightarrow> (Some IsADirectoryError, w)
      | Some (File content) \<Rightarrow>
          (case unzip content of
             None \<Rightarrow> (Some BadZipFile, w)
           | Some members \<Rightarrow> extract_members target members w))"

definition remove :: "path \<Rightarrow> command" where
  "remove p w =
     (case disk w p of
        None \<Rightarrow> (Some FileNotFoundError, w)
      | Some Dir \<Rightarrow> (Some IsADirectoryError, w)
      | Some (File content) \<Rightarrow>
          (None, w\<lparr>disk := (disk w)(p := None), changes := changes w @ [Remove p]\<rparr>))"

definition download_dastcom5 ::
  "bytes option \<Rightarrow> (bytes \<Rightarrow> (path \<times> node) list option) \<Rightarrow> bool \<Rightarrow> command" where
  "download_dastcom5 remote unzip update =
     (let dastcom5_dir = SBPY_LOCAL_PATH @ [''dastcom5''];
          dastcom5_zip_path = SBPY_LOCAL_PATH @ [''dastcom5.zip'']
      in
      seq (\<lambda>w. if isdir (disk w) dastcom5_dir \<and> \<not> update then raise FileExistsError w else skip w)
     (seq (\<lambda>w. if isdir (disk w) dastcom5_dir \<and> update then rmtree dastcom5_dir w else skip w)
     (seq (\<lambda>w. if \<not> is_zipfile unzip (disk w) dastcom5_zip_path then
                 seq (\<lambda>w. if \<not> isdir (disk w) SBPY_LOCAL_PATH then makedirs SBPY_LOCAL_PATH w
                          else skip w)
                     (urlretrieve remote dastcom5_zip_path) w
               else skip w)
     (seq (extractall unzip dastcom5_zip_path SBPY_LOCAL_PATH)
          (remove dastcom5_zip_path)))))"

text \<open>
  The specification's error classes are names of its own. Its \<^verbatim>\<open>NotFoundError\<close> is
  the class of an archive that is already present when no update was asked for, or
  absent when a read is attempted: in the module, the \<^verbatim>\<open>FileExistsError\<close> that
  \<^verbatim>\<open>download_dastcom5\<close> raises and the \<^verbatim>\<open>FileNotFoundError\<close> of \<^verbatim>\<open>open\<close>.
\<close>

definition NotFoundError_class :: "error \<Rightarrow> bool" where
  "NotFoundError_class e = (e = FileExistsError \<or> e = FileNotFoundError)"

text \<open>A state in which the archive directory exists already.\<close>

definition fetched_world :: world where
  "fetched_world =
     \<lparr>disk = (\<lambda>p. if p = SBPY_LOCAL_PATH \<or> p = SBPY_LOCAL_PATH @ [''dastcom5'']
                      \<or> p = DBS_LOCAL_PATH then Some Dir
                    else example_archive p),
      changes = []\<rparr>"

section \<open>Tables\<close>
















section \<open>The merged view\<close>







section \<open>The name index\<close>

text \<open>
  \<^verbatim>\<open>string_record_from_name\<close> reads the text file \<^verbatim>\<open>dastcom.idx\<close> line by line and
  keeps the lines in which \<^verbatim>\<open>re.search(r"\b" + name.casefold() + r"\b", line.casefold())\<close>
  finds a match. Python's strings are Unicode and its \<^verbatim>\<open>re\<close> module is large; this
  development models both on a part only and says so where it stops: a result is what
  the function returns, the exception it raises, or \<open>Unmodelled\<close>. The text is ASCII, as
  the index of DASTCOM5 is (another byte in the file, or in the pattern, is
  \<open>Unmodelled\<close>). The pattern syntax covers ordinary characters, the dot, \<^verbatim>\<open>\b\<close>,
  alternation and plain groups; any other special character is \<open>Unmodelled\<close>.
\<close>

definition is_ascii :: "char \<Rightarrow> bool" where
  "is_ascii c = ((of_char c :: nat) < 128)"

definition is_upper :: "char \<Rightarrow> bool" where
  "is_upper c = (65 \<le> (of_char c :: nat) \<and> (of_char c :: nat) \<le> 90)"

definition is_lower :: "char \<Rightarrow> bool" where
  "is_lower c = (97 \<le> (of_char c :: nat) \<and> (of_char c :: nat) \<le> 122)"

definition lower :: "char \<Rightarrow> char" where
  "lower c = (if is_upper c then char_of ((of_char c :: nat) + 32) else c)"

text \<open>\<^verbatim>\<open>str.casefold()\<close>, which on ASCII text is the change to lower case.\<close>

definition casefold :: "string \<Rightarrow> string" where
  "casefold s = map lower s"

text \<open>The characters that \<^verbatim>\<open>\w\<close> matches in ASCII text.\<close>

definition is_word :: "char \<Rightarrow> bool" where
  "is_word c = (is_upper c \<or> is_lower c \<or> is_digit c \<or> c = CHR ''_'')"

text \<open>
  Reading a file opened in text mode: a line ends after its line feed and keeps it, and
  the line ends \<^verbatim>\<open>\r\n\<close> and \<^verbatim>\<open>\r\<close> are read as a line feed.
\<close>

fun universal_newlines :: "string \<Rightarrow> string" where
  "universal_newlines [] = []"
| "universal_newlines [c] = [if c = CHR 0x0D then CHR 0x0A else c]"
| "universal_newlines (c # d # cs) =
     (if c = CHR 0x0D \<and> d = CHR 0x0A then CHR 0x0A # universal_newlines cs
      else (if c = CHR 0x0D then CHR 0x0A else c) # universal_newlines (d # cs))"

fun split_lines :: "string \<Rightarrow> string \<Rightarrow> string list" where
  "split_lines cur [] = (if cur = [] then [] else [cur])"
| "split_lines cur (c # cs) =
     (if c = CHR 0x0A then (cur @ [c]) # split_lines [] cs else split_lines (cur @ [c]) cs)"

definition open_r :: "fs \<Rightarrow> path \<Rightarrow> string list outcome" where
  "open_r files p =
     (case files p of
        None \<Rightarrow> Raises FileNotFoundError
      | Some Dir \<Rightarrow> Raises IsADirectoryError
      | Some (File content) \<Rightarrow>
          if list_all is_ascii content then Returns (split_lines [] (universal_newlines content))
          else Unmodelled)"

subsection \<open>Patterns\<close>

datatype regex =
    Lit char
  | AnyChar
  | WordB
  | Eps
  | Seq regex regex
  | Alt regex regex

text \<open>The special characters of the pattern syntax: \<^verbatim>\<open>. ^ $ * + ? { } [ ] \ | ( )\<close>.\<close>

definition is_special :: "char \<Rightarrow> bool" where
  "is_special c = (c \<in> set ''.^$*+?{}[]|()'' \<or> c = CHR 0x5C)"

text \<open>
  The parser reads the pattern from left to right. It keeps a stack of open groups, the
  whole pattern being the outermost; for each it holds the alternatives that are
  complete and the items of the alternative being read, both latest first.
\<close>

type_synonym frame = "regex list \<times> regex list"

definition seq_of :: "regex list \<Rightarrow> regex" where
  "seq_of rs = foldr Seq rs Eps"

fun alt_of :: "regex list \<Rightarrow> regex" where
  "alt_of [] = Eps"
| "alt_of [r] = r"
| "alt_of (r # rs) = Alt r (alt_of rs)"

definition close_frame :: "frame \<Rightarrow> regex" where
  "close_frame f = (case f of (alts, cur) \<Rightarrow> alt_of (rev (seq_of (rev cur) # alts)))"

definition push :: "regex \<Rightarrow> frame list \<Rightarrow> frame list" where
  "push r st = (case st of [] \<Rightarrow> [] | (alts, cur) # rest \<Rightarrow> (alts, r # cur) # rest)"

definition next_alt :: "frame list \<Rightarrow> frame list" where
  "next_alt st =
     (case st of [] \<Rightarrow> [] | (alts, cur) # rest \<Rightarrow> (seq_of (rev cur) # alts, []) # rest)"

fun parse :: "frame list \<Rightarrow> string \<Rightarrow> regex outcome" where
  "parse st [] = (case st of [f] \<Rightarrow> Returns (close_frame f) | _ \<Rightarrow> Raises ReError)"
| "parse st (c # cs) =
     (if \<not> is_ascii c then Unmodelled
      else if c = CHR 0x5C then
        (case cs of
           [] \<Rightarrow> Raises ReError
         | d # ds \<Rightarrow> if d = CHR ''b'' then parse (push WordB st) ds else Unmodelled)
      else if c = CHR ''('' then
        (if take 1 cs = ''?'' then Unmodelled else parse (([], []) # st) cs)
      else if c = CHR '')'' then
        (case st of
           f # g # rest \<Rightarrow> parse (push (close_frame f) (g # rest)) cs
         | _ \<Rightarrow> Raises ReError)
      else if c = CHR ''|'' then parse (next_alt st) cs
      else if c = CHR ''.'' then parse (push AnyChar st) cs
      else if is_special c then Unmodelled
      else parse (push (Lit c) st) cs)"

definition re_compile :: "string \<Rightarrow> regex outcome" where
  "re_compile pattern = parse [([], [])] pattern"

subsection \<open>Matching\<close>

text \<open>
  A place in the text is the character before it, if there is one, and the text from
  there on. \<^verbatim>\<open>\b\<close> holds at a place with a word character on exactly one side.
\<close>

type_synonym place = "char option \<times> string"

definition boundary :: "char option \<Rightarrow> string \<Rightarrow> bool" where
  "boundary prev rest =
     ((case prev of None \<Rightarrow> False | Some c \<Rightarrow> is_word c) \<noteq>
      (case rest of [] \<Rightarrow> False | c # cs \<Rightarrow> is_word c))"

text \<open>The places at which a match of the pattern that starts at a given place can end.\<close>

fun step :: "regex \<Rightarrow> place \<Rightarrow> place list" where
  "step (Lit c) (prev, s) = (case s of [] \<Rightarrow> [] | x # xs \<Rightarrow> if x = c then [(Some x, xs)] else [])"
| "step AnyChar (prev, s) =
     (case s of [] \<Rightarrow> [] | x # xs \<Rightarrow> if x \<noteq> CHR 0x0A then [(Some x, xs)] else [])"
| "step WordB (prev, s) = (if boundary prev s then [(prev, s)] else [])"
| "step Eps (prev, s) = [(prev, s)]"
| "step (Seq a b) (prev, s) = concat (map (step b) (step a (prev, s)))"
| "step (Alt a b) (prev, s) = step a (prev, s) @ step b (prev, s)"

text \<open>\<^verbatim>\<open>re.search\<close> succeeds when a match starts at some place of the text.\<close>

fun search_from :: "regex \<Rightarrow> char option \<Rightarrow> string \<Rightarrow> bool" where
  "search_from r prev [] = (step r (prev, []) \<noteq> [])"
| "search_from r prev (c # cs) = (step r (prev, c # cs) \<noteq> [] \<or> search_from r (Some c) cs)"

definition re_search :: "string \<Rightarrow> string \<Rightarrow> bool outcome" where
  "re_search pattern text =
     (case re_compile pattern of
        Returns r \<Rightarrow> Returns (search_from r None text)
      | Raises e \<Rightarrow> Raises e
      | Unmodelled \<Rightarrow> Unmodelled)"

subsection \<open>\<^verbatim>\<open>string_record_from_name\<close>\<close>

text \<open>The loop over the lines of the file, with the list \<^verbatim>\<open>lines\<close> built so far.\<close>

fun scan_lines :: "string \<Rightarrow> string list \<Rightarrow> string list \<Rightarrow> string list outcome" where
  "scan_lines name lines [] = Returns lines"
| "scan_lines name lines (line # rest) =
     (case re_search ([CHR 0x5C, CHR ''b''] @ casefold name @ [CHR 0x5C, CHR ''b'']) (casefold line) of
        Returns found \<Rightarrow> scan_lines name (if found then lines @ [line] else lines) rest
      | Raises e \<Rightarrow> Raises e
      | Unmodelled \<Rightarrow> Unmodelled)"

definition string_record_from_name :: "fs \<Rightarrow> string \<Rightarrow> string list outcome" where
  "string_record_from_name files name =
     (case open_r files (DBS_LOCAL_PATH @ [''dastcom.idx'']) of
        Returns index_lines \<Rightarrow> scan_lines name [] index_lines
      | Raises e \<Rightarrow> Raises e
      | Unmodelled \<Rightarrow> Unmodelled)"

text \<open>
  What claim C4 calls a whole-word match, in the claim's words: the query occurs in the
  line, with a word boundary on both sides of the occurrence. A plain character is one
  the pattern syntax gives no meaning to. \<open>prev_after\<close> is the character before the
  place that is reached by reading \<open>q\<close>.
\<close>

definition prev_after :: "char option \<Rightarrow> string \<Rightarrow> char option" where
  "prev_after prev q = (if q = [] then prev else Some (last q))"

definition last_char :: "string \<Rightarrow> char option" where
  "last_char s = (if s = [] then None else Some (last s))"

definition whole_word_in :: "string \<Rightarrow> string \<Rightarrow> bool" where
  "whole_word_in q s =
     (\<exists>pre post. s = pre @ q @ post \<and>
        boundary (last_char pre) (q @ post) \<and> boundary (last_char (pre @ q)) post)"

definition plain :: "char \<Rightarrow> bool" where
  "plain c = (is_ascii c \<and> \<not> is_special c)"

text \<open>An index of four lines.\<close>

definition example_index :: fs where
  "example_index =
     (\<lambda>p. if p = DBS_LOCAL_PATH @ [''dastcom.idx'']
          then Some (File (''     1 Ceres'' @ [CHR 0x0A] @ ''   433 Eros'' @ [CHR 0x0A] @
                           ''  1001 Aeros'' @ [CHR 0x0A] @ ''  1002 Erosion'' @ [CHR 0x0A]))
          else None)"

section \<open>Properties\<close>

subsection \<open>Auxiliary facts\<close>

lemma and_then_simps [simp]:
  "and_then (Inl e) f = Inl e"
  "and_then (Inr v) f = f v"
  by (simp_all add: and_then_def)

lemma itemsize_AST_DTYPE: "itemsize AST_DTYPE = 835"
  by (simp add: itemsize_def AST_DTYPE_def)

lemma itemsize_COM_DTYPE: "itemsize COM_DTYPE = 976"
  by (simp add: itemsize_def COM_DTYPE_def)

lemma itemsize_ast_dtype: "itemsize ast_dtype = 86"
  by (simp add: itemsize_def ast_dtype_def)

lemma itemsize_com_dtype: "itemsize com_dtype = 82"
  by (simp add: itemsize_def com_dtype_def)

lemma fromfile_one:
  assumes "0 < itemsize d"
  shows "fromfile content pos d 1 =
     Inr (if int (length content) < int pos + int (itemsize d) then []
          else [decode_record d (take (itemsize d) (drop pos content))])"
proof (cases "int (length content) < int pos + int (itemsize d)")
  case True
  then have "nat (int (length content) - int pos) div itemsize d = 0"
    by (simp add: div_eq_0_iff) linarith
  with True show ?thesis by (simp add: fromfile_def)
next
  case False
  then have "itemsize d \<le> nat (int (length content) - int pos)" by simp
  then have "1 \<le> nat (int (length content) - int pos) div itemsize d"
    using assms by (simp add: Suc_le_eq div_greater_zero_iff)
  then have "min (nat 1) (nat (int (length content) - int pos) div itemsize d) = Suc 0"
    by simp
  with False show ?thesis by (simp add: fromfile_def Let_def)
qed

lemma seek_and_read_eq:
  assumes "open_rb files p = Inr content" and "0 < itemsize d"
  shows "seek_and_read maxbytes files p d phis_rec =
     (if phis_rec < - (2 ^ 63) \<or> 2 ^ 63 \<le> phis_rec then Inl ValueError
      else if phis_rec < 0 \<or> maxbytes < phis_rec then Inl OSError_EINVAL
      else if int (length content) < phis_rec + int (itemsize d) then Inr []
      else Inr [decode_record d (take (itemsize d) (drop (nat phis_rec) content))])"
  using assms by (simp add: seek_and_read_def seek_def fromfile_one)

lemma read_headers_eq:
  assumes "open_rb files AST_DB_PATH = Inr f" and "open_rb files COM_DB_PATH = Inr g"
  shows "read_headers files =
     Inr (if length f < itemsize ast_dtype then [] else [decode_record ast_dtype (take (itemsize ast_dtype) f)],
          if length g < itemsize com_dtype then [] else [decode_record com_dtype (take (itemsize com_dtype) g)])"
proof -
  have a: "open_rb files (DBS_LOCAL_PATH @ [''dast5_le.dat'']) = Inr f"
    using assms(1) by (simp add: AST_DB_PATH_def)
  have c: "open_rb files (DBS_LOCAL_PATH @ [''dcom5_le.dat'']) = Inr g"
    using assms(2) by (simp add: COM_DB_PATH_def)
  show ?thesis
    by (simp add: read_headers_def a c fromfile_one itemsize_ast_dtype itemsize_com_dtype)
qed

lemma read_record_cases:
  assumes "read_headers files = Inr (ast_header, com_header)"
    and "int_item0 ast_header ''ENDPT1'' = Inr endpt1"
    and "int_item0 ast_header ''ENDPT2'' = Inr endpt2"
    and "num_item0 ast_header ''IBIAS0'' = Inr ibias0"
    and "num_item0 ast_header ''IBIAS1'' = Inr ibias1"
    and "num_item0 com_header ''IBIAS2'' = Inr ibias2"
  shows "read_record maxbytes files record =
     (if record \<le> endpt2 then
        if record \<le> endpt1 then seek_and_read maxbytes files AST_DB_PATH AST_DTYPE (835 * (record - ibias0 - 1))
        else seek_and_read maxbytes files AST_DB_PATH AST_DTYPE (835 * (record - ibias1 - 1))
      else seek_and_read maxbytes files COM_DB_PATH COM_DTYPE (976 * (record - ibias2 - 1)))"
  using assms by (simp add: read_record_def AST_DB_PATH_def COM_DB_PATH_def)

lemma paths_distinct: "AST_DB_PATH \<noteq> COM_DB_PATH"
  by (simp add: AST_DB_PATH_def COM_DB_PATH_def)

lemma length_example_ast_header: "length example_ast_header = 86"
  by (simp add: example_ast_header_def)

lemma length_example_com_header: "length example_com_header = 82"
  by (simp add: example_com_header_def)

lemma open_example:
  "open_rb example_archive AST_DB_PATH = Inr example_ast_file"
  "open_rb example_archive COM_DB_PATH = Inr example_com_file"
  by (simp_all add: open_rb_def example_archive_def paths_distinct [symmetric])

lemma example_headers:
  "read_headers example_archive =
     Inr ([decode_record ast_dtype example_ast_header], [decode_record com_dtype example_com_header])"
  by (simp add: read_headers_eq [OF open_example] itemsize_ast_dtype itemsize_com_dtype
      example_ast_file_def example_com_file_def length_example_ast_header length_example_com_header)

lemma example_markers:
  "int_item0 [decode_record ast_dtype example_ast_header] ''ENDPT1'' = Inr 2"
  "int_item0 [decode_record ast_dtype example_ast_header] ''ENDPT2'' = Inr 11"
  by (simp_all add: int_item0_def item0_def ast_dtype_def example_ast_header_def rstrip_nul_def
      py_int_def strip_def is_space_def is_digit_def)

lemma example_biases:
  "num_item0 [decode_record ast_dtype example_ast_header] ''IBIAS0'' = Inr (- 1)"
  "num_item0 [decode_record ast_dtype example_ast_header] ''IBIAS1'' = Inr 6"
  "num_item0 [decode_record com_dtype example_com_header] ''IBIAS2'' = Inr 18"
  by (simp_all add: num_item0_def item0_def ast_dtype_def com_dtype_def example_ast_header_def
      example_com_header_def le_int_def)


lemma length_example_files:
  "length example_ast_file = 1670" "length example_com_file = 1952"
  by (simp_all add: example_ast_file_def example_com_file_def length_example_ast_header
      length_example_com_header)

subsection \<open>The asteroid record size\<close>

text \<open>
  Claim C3 says the asteroid record is 144 bytes long. The field widths of
  \<open>AST_DTYPE\<close> add up to 835, so the claim as stated fails.
\<close>

theorem ast_record_size_not_144: "itemsize AST_DTYPE \<noteq> 144"
  by (simp add: itemsize_AST_DTYPE)

text \<open>
  Claim C3, amended: the asteroid schema has 117 fields whose widths add up to exactly
  835 bytes. That size is the offset at which the bulk read starts (the header occupies
  the first 835 bytes of the file) and the stride \<^verbatim>\<open>read_record\<close> multiplies by in
  both asteroid branches.
\<close>

theorem ast_record_size_835:
  "length AST_DTYPE = 117 \<and> itemsize AST_DTYPE = 835 \<and>
   (\<forall>maxbytes files. asteroid_db maxbytes files =
      and_then (open_rb files AST_DB_PATH) (\<lambda>f.
      and_then (seek maxbytes (int (itemsize AST_DTYPE))) (\<lambda>pos.
      fromfile f pos AST_DTYPE (- 1)))) \<and>
   (\<forall>maxbytes files record. read_record maxbytes files record =
      and_then (read_headers files) (\<lambda>(ast_header, com_header).
      and_then (int_item0 ast_header ''ENDPT2'') (\<lambda>endpt2.
        if record \<le> endpt2 then
          and_then (int_item0 ast_header ''ENDPT1'') (\<lambda>endpt1.
          and_then (num_item0 ast_header (if record \<le> endpt1 then ''IBIAS0'' else ''IBIAS1'')) (\<lambda>ibias.
          seek_and_read maxbytes files AST_DB_PATH AST_DTYPE (int (itemsize AST_DTYPE) * (record - ibias - 1))))
        else
          and_then (num_item0 com_header ''IBIAS2'') (\<lambda>ibias2.
          seek_and_read maxbytes files COM_DB_PATH COM_DTYPE (976 * (record - ibias2 - 1))))))"
proof -
  have "length AST_DTYPE = 117"
    by (simp add: AST_DTYPE_def)
  moreover have "\<forall>maxbytes files. asteroid_db maxbytes files =
      and_then (open_rb files AST_DB_PATH) (\<lambda>f.
      and_then (seek maxbytes (int (itemsize AST_DTYPE))) (\<lambda>pos.
      fromfile f pos AST_DTYPE (- 1)))"
    by (simp add: asteroid_db_def itemsize_AST_DTYPE)
  moreover have "\<forall>maxbytes files record. read_record maxbytes files record =
      and_then (read_headers files) (\<lambda>(ast_header, com_header).
      and_then (int_item0 ast_header ''ENDPT2'') (\<lambda>endpt2.
        if record \<le> endpt2 then
          and_then (int_item0 ast_header ''ENDPT1'') (\<lambda>endpt1.
          and_then (num_item0 ast_header (if record \<le> endpt1 then ''IBIAS0'' else ''IBIAS1'')) (\<lambda>ibias.
          seek_and_read maxbytes files AST_DB_PATH AST_DTYPE (int (itemsize AST_DTYPE) * (record - ibias - 1))))
        else
          and_then (num_item0 com_header ''IBIAS2'') (\<lambda>ibias2.
          seek_and_read maxbytes files COM_DB_PATH COM_DTYPE (976 * (record - ibias2 - 1)))))"
    by (auto simp add: read_record_def itemsize_AST_DTYPE AST_DB_PATH_def COM_DB_PATH_def and_then_def
        split: sum.splits)
  ultimately show ?thesis
    using itemsize_AST_DTYPE by blast
qed

subsection \<open>Reading the headers of a truncated file\<close>




subsection \<open>The record resolver\<close>



text \<open>
  Claim C2 says that a record number outside all ranges, or with an offset past the end
  of the file, fails with an out-of-range error. Record 1000 of the small archive is
  past every marker of its header and its offset is far past the end of the comet
  file; \<^verbatim>\<open>read_record\<close> returns an empty array.
\<close>

theorem read_record_past_end_no_error:
  "read_record example_maxbytes example_archive 1000 = Inr []"
  by (simp add: read_record_cases [OF example_headers example_markers example_biases]
      seek_and_read_eq [OF open_example(2)] itemsize_COM_DTYPE length_example_files
      example_maxbytes_def)

text \<open>
  Claim C2, amended: \<^verbatim>\<open>read_record\<close> checks no range. When both headers hold a
  record, the two boundary markers parse as integers and the three biases are read, it
  fails only where the seek refuses the offset it computed: a negative offset and one
  beyond the largest file size of the file system with the error of the operating system
  (EINVAL), one that does not fit 64 bits with a ValueError. For any other offset it
  returns an empty array when less than one whole record lies there, in particular past
  the end of the file, and otherwise the record decoded from the bytes at the offset,
  whatever they are. A truncated record is never returned.
\<close>

theorem read_record_unchecked:
  assumes "read_headers files = Inr (ast_header, com_header)"
    and "int_item0 ast_header ''ENDPT1'' = Inr endpt1"
    and "int_item0 ast_header ''ENDPT2'' = Inr endpt2"
    and "num_item0 ast_header ''IBIAS0'' = Inr ibias0"
    and "num_item0 ast_header ''IBIAS1'' = Inr ibias1"
    and "num_item0 com_header ''IBIAS2'' = Inr ibias2"
    and "open_rb files AST_DB_PATH = Inr f"
    and "open_rb files COM_DB_PATH = Inr g"
    and "phis_rec =
       (if record \<le> endpt2 then 835 * (record - (if record \<le> endpt1 then ibias0 else ibias1) - 1)
        else 976 * (record - ibias2 - 1))"
    and "content = (if record \<le> endpt2 then f else g)"
    and "d = (if record \<le> endpt2 then AST_DTYPE else COM_DTYPE)"
  shows "read_record maxbytes files record =
     (if phis_rec < - (2 ^ 63) \<or> 2 ^ 63 \<le> phis_rec then Inl ValueError
      else if phis_rec < 0 \<or> maxbytes < phis_rec then Inl OSError_EINVAL
      else if int (length content) < phis_rec + int (itemsize d) then Inr []
      else Inr [decode_record d (take (itemsize d) (drop (nat phis_rec) content))])"
proof (cases "record \<le> endpt2")
  case True
  then have "read_record maxbytes files record = seek_and_read maxbytes files AST_DB_PATH AST_DTYPE phis_rec"
    using assms(9) by (simp add: read_record_cases [OF assms(1-6)])
  also have "\<dots> = (if phis_rec < - (2 ^ 63) \<or> 2 ^ 63 \<le> phis_rec then Inl ValueError
      else if phis_rec < 0 \<or> maxbytes < phis_rec then Inl OSError_EINVAL
      else if int (length f) < phis_rec + int (itemsize AST_DTYPE) then Inr []
      else Inr [decode_record AST_DTYPE (take (itemsize AST_DTYPE) (drop (nat phis_rec) f))])"
    by (rule seek_and_read_eq [OF assms(7)]) (simp add: itemsize_AST_DTYPE)
  finally show ?thesis
    using True assms(10,11) by simp
next
  case False
  then have "read_record maxbytes files record = seek_and_read maxbytes files COM_DB_PATH COM_DTYPE phis_rec"
    using assms(9) by (simp add: read_record_cases [OF assms(1-6)])
  also have "\<dots> = (if phis_rec < - (2 ^ 63) \<or> 2 ^ 63 \<le> phis_rec then Inl ValueError
      else if phis_rec < 0 \<or> maxbytes < phis_rec then Inl OSError_EINVAL
      else if int (length g) < phis_rec + int (itemsize COM_DTYPE) then Inr []
      else Inr [decode_record COM_DTYPE (take (itemsize COM_DTYPE) (drop (nat phis_rec) g))])"
    by (rule seek_and_read_eq [OF assms(8)]) (simp add: itemsize_COM_DTYPE)
  finally show ?thesis
    using False assms(10,11) by simp
qed

text \<open>
  The amended claim C2 on the small archive, on a file system whose largest file size
  is 16 TiB less one block: record 0 is read from the header slot, record 2 lies past
  the end, record 3 has a negative offset, record 20 is a comet, the offset of record
  \<open>10\<^sup>1\<^sup>5\<close> is beyond the largest file size and the offset of record \<open>10\<^sup>1\<^sup>7\<close> does
  not fit 64 bits.
\<close>

theorem read_record_unchecked_witness:
  "read_record example_maxbytes example_archive 0 =
     Inr [decode_record AST_DTYPE (take 835 example_ast_file)] \<and>
   read_record example_maxbytes example_archive 2 = Inr [] \<and>
   read_record example_maxbytes example_archive 3 = Inl OSError_EINVAL \<and>
   read_record example_maxbytes example_archive 20 =
     Inr [decode_record COM_DTYPE (replicate 976 (CHR 0x00))] \<and>
   read_record example_maxbytes example_archive 1000000000000000 = Inl OSError_EINVAL \<and>
   read_record example_maxbytes example_archive 100000000000000000 = Inl ValueError"
proof -
  note t = read_record_unchecked [OF example_headers example_markers example_biases open_example
    refl refl refl, of example_maxbytes]
  show ?thesis
    using t [of 0] t [of 2] t [of 3] t [of 20] t [of 1000000000000000]
      t [of 100000000000000000]
    by (simp add: itemsize_AST_DTYPE itemsize_COM_DTYPE length_example_files example_maxbytes_def)
      (simp add: example_com_file_def length_example_com_header)
qed

subsection \<open>Decoding loses nothing\<close>

lemma le_nat_bound: "le_nat bs < 2 ^ (8 * length bs)"
proof (induction bs)
  case Nil
  show ?case by simp
next
  case (Cons b bs)
  have b: "(of_char b :: nat) < 256"
    by simp
  have "of_char b + 256 * le_nat bs < 256 + 256 * le_nat bs"
    using b by simp
  also have "\<dots> = 256 * (le_nat bs + 1)"
    by simp
  also have "\<dots> \<le> 256 * 2 ^ (8 * length bs)"
    using Cons.IH by (simp add: Suc_le_eq)
  finally show ?case
    by (simp add: power_add)
qed

lemma le_bytes_le_nat: "le_bytes (length bs) (le_nat bs) = bs"
proof (induction bs)
  case Nil
  show ?case by simp
next
  case (Cons b bs)
  have b: "(of_char b :: nat) < 256"
    by simp
  then have "(of_char b + 256 * le_nat bs) mod 256 = of_char b"
    and "(of_char b + 256 * le_nat bs) div 256 = le_nat bs"
    by simp_all
  with Cons.IH show ?case
    by simp
qed

lemma le_int_mod: "nat (le_int bs mod 2 ^ (8 * length bs)) = le_nat bs"
proof -
  let ?m = "(2::int) ^ (8 * length bs)"
  have lt: "int (le_nat bs) < ?m"
    using le_nat_bound [of bs] by (metis of_nat_less_iff of_nat_numeral of_nat_power)
  have "le_int bs mod ?m = int (le_nat bs)"
  proof (cases "?m \<le> 2 * int (le_nat bs)")
    case True
    then have "le_int bs = int (le_nat bs) - ?m"
      by (simp add: le_int_def Let_def)
    then have "le_int bs mod ?m = int (le_nat bs) mod ?m"
      by (simp add: mod_diff_right_eq [symmetric])
    with lt show ?thesis by simp
  next
    case False
    then have "le_int bs = int (le_nat bs)"
      by (simp add: le_int_def Let_def)
    with lt show ?thesis by simp
  qed
  then show ?thesis by simp
qed

lemma rstrip_nul_pad:
  "rstrip_nul bs @ replicate (length bs - length (rstrip_nul bs)) (CHR 0x00) = bs"
proof -
  let ?P = "\<lambda>c. c = CHR 0x00"
  have tw: "takeWhile ?P (rev bs) = replicate (length (takeWhile ?P (rev bs))) (CHR 0x00)"
    by (rule replicate_length_same [symmetric]) (auto dest: set_takeWhileD)
  have "length bs = length (takeWhile ?P (rev bs)) + length (dropWhile ?P (rev bs))"
    by (metis length_append length_rev takeWhile_dropWhile_id)
  then have len: "length bs - length (rstrip_nul bs) = length (takeWhile ?P (rev bs))"
    by (simp add: rstrip_nul_def)
  have "rev (rev bs) = rev (takeWhile ?P (rev bs) @ dropWhile ?P (rev bs))"
    by (simp only: takeWhile_dropWhile_id)
  then have "bs = rstrip_nul bs @ rev (takeWhile ?P (rev bs))"
    by (simp only: rev_rev_ident rev_append rstrip_nul_def)
  also have "rev (takeWhile ?P (rev bs)) = replicate (length (takeWhile ?P (rev bs))) (CHR 0x00)"
    using tw by (metis rev_replicate)
  finally show ?thesis
    using len by simp
qed

lemma encode_decode_field:
  assumes "length bs = width t"
  shows "encode_field t (decode_field t bs) = bs"
proof (cases t)
  case Int8
  with assms le_int_mod [of bs] le_bytes_le_nat [of bs] show ?thesis by simp
next
  case Int16
  with assms le_int_mod [of bs] le_bytes_le_nat [of bs] show ?thesis by simp
next
  case Int32
  with assms le_int_mod [of bs] le_bytes_le_nat [of bs] show ?thesis by simp
next
  case Float32
  then have "le_nat bs < 2 ^ 32"
    using assms le_nat_bound [of bs] by simp
  then have "unat (of_nat (le_nat bs) :: 32 word) = le_nat bs"
    by (simp add: unat_of_nat)
  with Float32 assms le_bytes_le_nat [of bs] show ?thesis by simp
next
  case Float64
  then have "le_nat bs < 2 ^ 64"
    using assms le_nat_bound [of bs] by simp
  then have "unat (of_nat (le_nat bs) :: 64 word) = le_nat bs"
    by (simp add: unat_of_nat)
  with Float64 assms le_bytes_le_nat [of bs] show ?thesis by simp
next
  case (S n)
  with assms rstrip_nul_pad [of bs] show ?thesis by simp
qed

lemma itemsize_Cons: "itemsize ((name, t) # d) = width t + itemsize d"
  by (simp add: itemsize_def)

lemma encode_decode_record:
  "length bs = itemsize d \<Longrightarrow> encode_record d (decode_record d bs) = bs"
proof (induction d arbitrary: bs)
  case Nil
  then show ?case by (simp add: itemsize_def)
next
  case (Cons f d)
  obtain name t where f: "f = (name, t)" by (cases f)
  from Cons.prems f have len: "length bs = width t + itemsize d"
    by (simp add: itemsize_Cons)
  then have "encode_field t (decode_field t (take (width t) bs)) = take (width t) bs"
    by (intro encode_decode_field) simp
  moreover have "encode_record d (decode_record d (drop (width t) bs)) = drop (width t) bs"
    using len by (intro Cons.IH) simp
  ultimately show ?case
    using f by simp
qed

text \<open>
  Claim C7: for every schema and every byte block of the schema's record size, decoding
  the block and writing the decoded values back in the schema's layout gives the block
  again; so two blocks that decode to the same values are the same block. The record
  size is 835 for the asteroid schema and 976 for the comet schema.
\<close>

theorem decode_encode_roundtrip:
  assumes "length bs = itemsize d"
  shows "encode_record d (decode_record d bs) = bs \<and>
     (\<forall>bs'. length bs' = itemsize d \<and> decode_record d bs' = decode_record d bs \<longrightarrow> bs' = bs) \<and>
     itemsize AST_DTYPE = 835 \<and> itemsize COM_DTYPE = 976"
proof -
  have "bs' = bs" if "length bs' = itemsize d" and "decode_record d bs' = decode_record d bs" for bs'
    using that assms by (metis encode_decode_record)
  then show ?thesis
    using assms by (simp add: encode_decode_record itemsize_AST_DTYPE itemsize_COM_DTYPE)
qed

text \<open>Claim C7 at the asteroid header of the small archive and at a record of zeros.\<close>

theorem decode_encode_roundtrip_witness:
  "length example_ast_header = itemsize ast_dtype \<and>
   encode_record ast_dtype (decode_record ast_dtype example_ast_header) = example_ast_header \<and>
   length (replicate 835 (CHR 0x00)) = itemsize AST_DTYPE \<and>
   encode_record AST_DTYPE (decode_record AST_DTYPE (replicate 835 (CHR 0x00))) = replicate 835 (CHR 0x00)"
proof -
  have a: "length example_ast_header = itemsize ast_dtype"
    by (simp add: length_example_ast_header itemsize_ast_dtype)
  have b: "length (replicate 835 (CHR 0x00)) = itemsize AST_DTYPE"
    by (simp add: itemsize_AST_DTYPE)
  show ?thesis
    using decode_encode_roundtrip [OF a] decode_encode_roundtrip [OF b] a b by simp
qed

subsection \<open>Fetching when the archive is there\<close>

text \<open>
  Claim C8: when the archive directory exists and no update is requested,
  \<^verbatim>\<open>download_dastcom5\<close> raises its \<^verbatim>\<open>FileExistsError\<close>, the error the specification
  files under \<^verbatim>\<open>NotFoundError\<close>, and the state it ends in is the state it started
  in: no file or directory was created, changed or deleted, and no change was made on
  the way.
\<close>

theorem download_existing_no_update:
  assumes "isdir (disk w) (SBPY_LOCAL_PATH @ [''dastcom5''])"
  shows "download_dastcom5 remote unzip False w = (Some FileExistsError, w) \<and>
     NotFoundError_class FileExistsError"
  using assms by (simp add: download_dastcom5_def Let_def seq_def raise_def NotFoundError_class_def)

text \<open>Claim C8 in a state that holds the small archive.\<close>

theorem download_existing_no_update_witness:
  "isdir (disk fetched_world) (SBPY_LOCAL_PATH @ [''dastcom5'']) \<and>
   download_dastcom5 None (\<lambda>c. None) False fetched_world = (Some FileExistsError, fetched_world) \<and>
   changes fetched_world = []"
proof -
  have d: "isdir (disk fetched_world) (SBPY_LOCAL_PATH @ [''dastcom5''])"
    by (simp add: isdir_def fetched_world_def SBPY_LOCAL_PATH_def)
  show ?thesis
    using download_existing_no_update [OF d, of None "\<lambda>c. None"] d
    by (simp add: fetched_world_def)
qed

subsection \<open>The orbit table of one record\<close>

lemma names_decode_record: "map fst (decode_record d bs) = names d"
  by (induction d bs rule: decode_record.induct) (simp_all add: names_def)




lemma decode_items_decoded:
  "r \<in> set (decode_items d n bs) \<Longrightarrow> \<exists>bs'. r = decode_record d bs'"
  by (induction n arbitrary: bs) auto

lemma decode_items_names: "r \<in> set (decode_items d n bs) \<Longrightarrow> map fst r = names d"
  using decode_items_decoded names_decode_record by blast






























subsection \<open>The merged view\<close>














subsection \<open>The name search\<close>

lemma of_char_lower:
  "is_upper c \<Longrightarrow> (of_char (char_of ((of_char c :: nat) + 32)) :: nat) = of_char c + 32"
proof -
  assume "is_upper c"
  then have "(of_char c :: nat) + 32 < 256"
    by (simp add: is_upper_def)
  then show ?thesis
    by (simp add: of_char_of)
qed

lemma is_special_code:
  "is_special c \<longleftrightarrow>
     (of_char c :: nat) \<in> {46, 94, 36, 42, 43, 63, 123, 125, 91, 93, 124, 40, 41, 92}"
  by (simp add: is_special_def of_char_eq_iff [where ?'a = nat, symmetric])

lemma plain_lower: "plain c \<Longrightarrow> plain (lower c)"
proof (cases "is_upper c")
  case True
  then have "(of_char (lower c) :: nat) = of_char c + 32"
    using of_char_lower [OF True] by (simp add: lower_def del: of_char_of)
  with True show ?thesis
    by (simp add: plain_def is_ascii_def is_special_code is_upper_def)
next
  case False
  assume "plain c"
  with False show ?thesis by (simp add: lower_def)
qed

lemma plain_casefold: "list_all plain q \<Longrightarrow> list_all plain (casefold q)"
  by (induction q) (simp_all add: casefold_def plain_lower)

lemma parse_plain:
  assumes "plain c"
  shows "parse ((alts, cur) # st) (c # cs) = parse ((alts, Lit c # cur) # st) cs"
proof -
  from assms have "is_ascii c" and "\<not> is_special c"
    by (simp_all add: plain_def)
  moreover from \<open>\<not> is_special c\<close>
  have "c \<noteq> CHR 0x5C" "c \<noteq> CHR ''(''" "c \<noteq> CHR '')''" "c \<noteq> CHR ''|''" "c \<noteq> CHR ''.''"
    by (auto simp add: is_special_def)
  ultimately show ?thesis
    by (simp add: push_def)
qed

lemma parse_plains:
  "list_all plain q \<Longrightarrow>
   parse ((alts, cur) # st) (q @ rest) = parse ((alts, rev (map Lit q) @ cur) # st) rest"
  by (induction q arbitrary: cur) (simp_all add: parse_plain del: parse.simps)

lemma compile_plain:
  assumes "list_all plain q"
  shows "re_compile ([CHR 0x5C, CHR ''b''] @ q @ [CHR 0x5C, CHR ''b'']) =
     Returns (seq_of (WordB # map Lit q @ [WordB]))"
proof -
  have a: "is_ascii (CHR 0x5C)"
    by (simp add: is_ascii_def)
  have "re_compile ([CHR 0x5C, CHR ''b''] @ q @ [CHR 0x5C, CHR ''b'']) =
      parse [([], [WordB])] (q @ [CHR 0x5C, CHR ''b''])"
    by (simp add: re_compile_def a push_def)
  also have "\<dots> = parse [([], rev (map Lit q) @ [WordB])] [CHR 0x5C, CHR ''b'']"
    by (rule parse_plains [OF assms])
  also have "\<dots> = Returns (seq_of (WordB # map Lit q @ [WordB]))"
    by (simp add: a push_def close_frame_def)
  finally show ?thesis .
qed

lemma step_lits:
  "step (foldr Seq (map Lit q) r) (prev, s) =
     (if length q \<le> length s \<and> take (length q) s = q
      then step r (prev_after prev q, drop (length q) s) else [])"
proof (induction q arbitrary: prev s)
  case Nil
  show ?case by (simp add: prev_after_def)
next
  case (Cons c q)
  show ?case
  proof (cases s)
    case Nil
    then show ?thesis by simp
  next
    case (Cons x xs)
    have "prev_after prev (c # q) = prev_after (Some c) q"
      by (simp add: prev_after_def)
    with Cons Cons.IH [of "Some c" xs] show ?thesis
      by auto
  qed
qed

lemma step_word_pattern:
  "step (seq_of (WordB # map Lit q @ [WordB])) (prev, s) \<noteq> [] \<longleftrightarrow>
     boundary prev s \<and> (\<exists>post. s = q @ post \<and> boundary (prev_after prev q) post)"
proof -
  have pre: "(length q \<le> length s \<and> take (length q) s = q) \<longleftrightarrow> (\<exists>post. s = q @ post)"
    by (metis append_eq_conv_conj append_take_drop_id length_append le_add1)
  have "step (seq_of (WordB # map Lit q @ [WordB])) (prev, s) =
      (if boundary prev s then step (foldr Seq (map Lit q) (Seq WordB Eps)) (prev, s) else [])"
    by (simp add: seq_of_def)
  also have "\<dots> =
      (if boundary prev s \<and> length q \<le> length s \<and> take (length q) s = q \<and>
          boundary (prev_after prev q) (drop (length q) s)
       then [(prev_after prev q, drop (length q) s)] else [])"
    by (simp add: step_lits)
  finally show ?thesis
    using pre by auto
qed

lemma split_first:
  "(\<exists>pre post. c # cs = pre @ post \<and> P pre post) \<longleftrightarrow>
     P [] (c # cs) \<or> (\<exists>pre post. cs = pre @ post \<and> P (c # pre) post)"
proof
  assume "\<exists>pre post. c # cs = pre @ post \<and> P pre post"
  then obtain pre post where eq: "c # cs = pre @ post" and p: "P pre post"
    by blast
  show "P [] (c # cs) \<or> (\<exists>pre post. cs = pre @ post \<and> P (c # pre) post)"
  proof (cases pre)
    case Nil
    with eq p show ?thesis by simp
  next
    case (Cons a pre')
    with eq have "a = c" and "cs = pre' @ post" by simp_all
    with p Cons show ?thesis by blast
  qed
next
  assume "P [] (c # cs) \<or> (\<exists>pre post. cs = pre @ post \<and> P (c # pre) post)"
  then show "\<exists>pre post. c # cs = pre @ post \<and> P pre post"
  proof
    assume "P [] (c # cs)"
    then have "c # cs = [] @ (c # cs) \<and> P [] (c # cs)" by simp
    then show ?thesis by blast
  next
    assume "\<exists>pre post. cs = pre @ post \<and> P (c # pre) post"
    then obtain pre post where "cs = pre @ post" and "P (c # pre) post" by blast
    then have "c # cs = (c # pre) @ post \<and> P (c # pre) post" by simp
    then show ?thesis by blast
  qed
qed

lemma search_from_iff:
  "search_from r prev s \<longleftrightarrow>
     (\<exists>pre post. s = pre @ post \<and> step r (prev_after prev pre, post) \<noteq> [])"
proof (induction s arbitrary: prev)
  case Nil
  show ?case by (simp add: prev_after_def)
next
  case (Cons c cs)
  have a: "prev_after prev [] = prev"
    by (simp add: prev_after_def)
  have b: "prev_after prev (c # pre) = prev_after (Some c) pre" for pre
    by (simp add: prev_after_def)
  show ?case
    unfolding split_first [of c cs "\<lambda>pre post. step r (prev_after prev pre, post) \<noteq> []"] a b
    using Cons.IH [of "Some c"] by simp
qed

lemma search_word_pattern:
  "search_from (seq_of (WordB # map Lit q @ [WordB])) None s \<longleftrightarrow> whole_word_in q s"
proof -
  have a: "prev_after None pre = last_char pre" for pre
    by (simp add: prev_after_def last_char_def)
  have b: "prev_after (last_char pre) q = last_char (pre @ q)" for pre
    by (simp add: prev_after_def last_char_def)
  show ?thesis
    unfolding search_from_iff step_word_pattern whole_word_in_def a b
    by (metis append.assoc)
qed

lemma scan_lines_compiled:
  assumes "re_compile ([CHR 0x5C, CHR ''b''] @ casefold name @ [CHR 0x5C, CHR ''b'']) = Returns r"
  shows "scan_lines name acc ls =
     Returns (acc @ filter (\<lambda>line. search_from r None (casefold line)) ls)"
  using assms by (induction ls arbitrary: acc) (simp_all add: re_search_def)

lemma whole_word_in_set: "whole_word_in q s \<Longrightarrow> set q \<subseteq> set s"
  by (auto simp add: whole_word_in_def)

lemma example_index_lines:
  "open_r example_index (DBS_LOCAL_PATH @ [''dastcom.idx'']) =
     Returns [''     1 Ceres'' @ [CHR 0x0A], ''   433 Eros'' @ [CHR 0x0A],
              ''  1001 Aeros'' @ [CHR 0x0A], ''  1002 Erosion'' @ [CHR 0x0A]]"
  by code_simp

text \<open>
  Claim C4 says that for every non-empty query the search matches a line exactly when
  the query occurs in it as a whole word. The query \<^verbatim>\<open>eros|ceres\<close> is read as a
  pattern with two alternatives: it matches three lines of the example index, among
  them the line of \<^verbatim>\<open>Erosion\<close>, in which the query does not occur at all.
\<close>

theorem name_search_alternation_counterexample:
  "string_record_from_name example_index ''eros|ceres'' =
     Returns [''     1 Ceres'' @ [CHR 0x0A], ''   433 Eros'' @ [CHR 0x0A],
              ''  1002 Erosion'' @ [CHR 0x0A]] \<and>
   \<not> whole_word_in (casefold ''eros|ceres'') (casefold (''  1002 Erosion'' @ [CHR 0x0A]))"
proof -
  have "string_record_from_name example_index ''eros|ceres'' =
     Returns [''     1 Ceres'' @ [CHR 0x0A], ''   433 Eros'' @ [CHR 0x0A],
              ''  1002 Erosion'' @ [CHR 0x0A]]"
    by code_simp
  moreover have "\<not> set (casefold ''eros|ceres'') \<subseteq> set (casefold (''  1002 Erosion'' @ [CHR 0x0A]))"
    by code_simp
  ultimately show ?thesis
    using whole_word_in_set by blast
qed

text \<open>
  Claim C4, amended: for every query made of plain characters only (ASCII characters
  other than \<^verbatim>\<open>. ^ $ * + ? { } [ ] \ | ( )\<close>) and every ASCII index, the name search
  returns, in the order of the index, exactly the lines in which the case-folded query
  occurs with a word boundary on both sides of the occurrence.
\<close>

theorem name_search_whole_word:
  assumes "open_r files (DBS_LOCAL_PATH @ [''dastcom.idx'']) = Returns index_lines"
    and "list_all plain name"
  shows "string_record_from_name files name =
     Returns (filter (\<lambda>line. whole_word_in (casefold name) (casefold line)) index_lines)"
proof -
  have "re_compile ([CHR 0x5C, CHR ''b''] @ casefold name @ [CHR 0x5C, CHR ''b'']) =
      Returns (seq_of (WordB # map Lit (casefold name) @ [WordB]))"
    by (rule compile_plain [OF plain_casefold [OF assms(2)]])
  from scan_lines_compiled [OF this, of "[]" index_lines] assms(1) show ?thesis
    by (simp add: string_record_from_name_def search_word_pattern)
qed

text \<open>
  The amended claim C4 at the query \<^verbatim>\<open>Eros\<close>: it finds the line of Eros and neither
  the line of \<^verbatim>\<open>Aeros\<close> nor the line of \<^verbatim>\<open>Erosion\<close>.
\<close>

theorem name_search_whole_word_witness:
  "list_all plain ''Eros'' \<and>
   string_record_from_name example_index ''Eros'' = Returns [''   433 Eros'' @ [CHR 0x0A]] \<and>
   whole_word_in (casefold ''Eros'') (casefold (''   433 Eros'' @ [CHR 0x0A])) \<and>
   \<not> whole_word_in (casefold ''Eros'') (casefold (''  1001 Aeros'' @ [CHR 0x0A])) \<and>
   \<not> whole_word_in (casefold ''Eros'') (casefold (''  1002 Erosion'' @ [CHR 0x0A]))"
proof -
  have p: "list_all plain ''Eros''"
    by code_simp
  have r: "string_record_from_name example_index ''Eros'' = Returns [''   433 Eros'' @ [CHR 0x0A]]"
    by code_simp
  from name_search_whole_word [OF example_index_lines p] r
  have "filter (\<lambda>line. whole_word_in (casefold ''Eros'') (casefold line))
      [''     1 Ceres'' @ [CHR 0x0A], ''   433 Eros'' @ [CHR 0x0A],
       ''  1001 Aeros'' @ [CHR 0x0A], ''  1002 Erosion'' @ [CHR 0x0A]] =
      [''   433 Eros'' @ [CHR 0x0A]]"
    by simp
  then have "whole_word_in (casefold ''Eros'') (casefold (''   433 Eros'' @ [CHR 0x0A]))"
    and "\<not> whole_word_in (casefold ''Eros'') (casefold (''  1001 Aeros'' @ [CHR 0x0A]))"
    and "\<not> whole_word_in (casefold ''Eros'') (casefold (''  1002 Erosion'' @ [CHR 0x0A]))"
    by (auto split: if_splits)
  with p r show ?thesis by blast
qed

text \<open>
  Claim C9: the query is made part of a regular expression as it is. A query with an
  unbalanced \<^verbatim>\<open>(\<close> makes the compilation of the pattern fail, so that the search
  raises instead of returning a list; and the dot of the query \<^verbatim>\<open>er.s\<close> stands for
  any character, so that the search returns the line of Eros, in which the query does
  not occur.
\<close>

theorem name_search_takes_regex:
  "string_record_from_name example_index ''('' = Raises ReError \<and>
   string_record_from_name example_index ''er.s'' = Returns [''   433 Eros'' @ [CHR 0x0A]] \<and>
   \<not> whole_word_in (casefold ''er.s'') (casefold (''   433 Eros'' @ [CHR 0x0A]))"
proof -
  have "string_record_from_name example_index ''('' = Raises ReError"
    by code_simp
  moreover have "string_record_from_name example_index ''er.s'' =
      Returns [''   433 Eros'' @ [CHR 0x0A]]"
    by code_simp
  moreover have "\<not> set (casefold ''er.s'') \<subseteq> set (casefold (''   433 Eros'' @ [CHR 0x0A]))"
    by code_simp
  ultimately show ?thesis
    using whole_word_in_set by blast
qed

end
